theory Spec2Isabelle
  imports Main
begin

section \<open>The cluster seen from \<open>basicTools.py\<close>\<close>

text \<open>
  The four tools of \<open>basicTools.py\<close> talk to a Kubernetes cluster through the Python
  client. The model keeps the objects the tools read as records, with \<open>option\<close> for the
  attributes the client types as optional and the code either guards
  (\<open>deployment.spec\<close>, \<open>deployment.status\<close>) or reads unguarded
  (\<open>selector.match_labels\<close>). \<open>metadata.name\<close> and a pod's \<open>status\<close> are read
  unguarded everywhere and are always populated by the API server, so a name is a plain
  string and \<open>phase\<close> and \<open>pod_ip\<close> sit in the pod itself.

  An exception is a value. \<open>ApiException\<close> carries \<open>e.status\<close> and the text of
  \<open>str(e)\<close>; every other subclass of \<open>Exception\<close> (a connection error of the HTTP
  layer, an \<open>AttributeError\<close> on \<open>None\<close>) carries its text only.
\<close>

datatype exn = ApiException int string | OtherException string

fun str_exn :: "exn \<Rightarrow> string" where
  "str_exn (ApiException status text) = text"
| "str_exn (OtherException text) = text"

datatype 'a outcome = Returns 'a | Raises exn

record pod =
  pod_name :: string
  phase :: "string option"
  pod_ip :: "string option"

record deployment_status =
  status_ready_replicas :: "int option"
  status_available_replicas :: "int option"
  status_updated_replicas :: "int option"

record pod_template =
  template_spec :: "string list option"

record deployment_spec =
  replicas :: "int option"
  match_labels :: "(string \<times> string) list option"
  template :: "pod_template option"

record deployment =
  metadata_name :: string
  spec :: "deployment_spec option"
  status :: "deployment_status option"

text \<open>
  \<open>template_spec\<close> is \<open>deployment.spec.template.spec\<close>: \<open>None\<close>, or the images of
  its containers in order. \<open>match_labels\<close> is \<open>deployment.spec.selector.match_labels\<close>,
  a dict in insertion order.
\<close>

datatype json = JString string | JObject "(string \<times> json) list"

fun json_get :: "json \<Rightarrow> string list \<Rightarrow> json option" where
  "json_get j [] = Some j"
| "json_get (JString s) (k # ks) = None"
| "json_get (JObject kvs) (k # ks) =
     (case map_of kvs k of None \<Rightarrow> None | Some j \<Rightarrow> json_get j ks)"

text \<open>The calls the tools issue to the cluster, with their arguments.\<close>

datatype api_call =
    ListNamespacedPod string "string option"
  | ListNamespacedDeployment string
  | ReadNamespacedDeployment string string
  | PatchNamespacedDeployment string string json
  | ReadNamespacedPodLog string string int "int option"

text \<open>
  \<open>datetime.datetime.utcnow()\<close> returns a naive datetime.
\<close>

record datetime =
  year :: nat
  month :: nat
  day :: nat
  hour :: nat
  minute :: nat
  second :: nat
  microsecond :: nat

text \<open>
  The environment of a call: the file system check, the loading of the kubeconfig, the
  clock and the cluster. The cluster is any deterministic function of the calls issued
  so far (the first argument of each endpoint), so a stub that fails twice and then
  succeeds, or one that answers differently to each pod, is an environment.
\<close>

record env =
  kubeconfig_is_file :: bool
  load_kube_config :: "exn option"
  utcnow :: "api_call list \<Rightarrow> datetime"
  list_namespaced_pod :: "api_call list \<Rightarrow> string \<Rightarrow> string option \<Rightarrow> pod list outcome"
  list_namespaced_deployment :: "api_call list \<Rightarrow> string \<Rightarrow> deployment list outcome"
  read_namespaced_deployment :: "api_call list \<Rightarrow> string \<Rightarrow> string \<Rightarrow> deployment outcome"
  patch_namespaced_deployment :: "api_call list \<Rightarrow> string \<Rightarrow> string \<Rightarrow> json \<Rightarrow> unit outcome"
  read_namespaced_pod_log ::
    "api_call list \<Rightarrow> string \<Rightarrow> string \<Rightarrow> int \<Rightarrow> int option \<Rightarrow> string outcome"

text \<open>
  What a call leaves behind: the calls issued to the cluster, in order, and the lines
  printed.
\<close>

record world =
  calls :: "api_call list"
  stdout :: "string list"

definition issue :: "api_call \<Rightarrow> world \<Rightarrow> world" where
  "issue c w = w\<lparr>calls := calls w @ [c]\<rparr>"

definition print :: "string \<Rightarrow> world \<Rightarrow> world" where
  "print line w = w\<lparr>stdout := stdout w @ [line]\<rparr>"

definition KUBECONFIG_PATH :: string where
  "KUBECONFIG_PATH = ''C:/Users/mandapak/Desktop/wslk3s.yaml''"

section \<open>Formatting\<close>

definition q :: string where
  "q = [CHR 0x27]"

definition digit_char :: "nat \<Rightarrow> char" where
  "digit_char d = ''0123456789'' ! (d mod 10)"

fun str_nat :: "nat \<Rightarrow> string" where
  "str_nat n = (if n < 10 then [digit_char n] else str_nat (n div 10) @ [digit_char n])"

definition zfill :: "nat \<Rightarrow> string \<Rightarrow> string" where
  "zfill width s = replicate (width - length s) (CHR ''0'') @ s"

text \<open>
  \<open>isoformat()\<close> of a naive datetime: \<open>YYYY-MM-DDTHH:MM:SS\<close>, followed by
  \<open>.ffffff\<close> when the microsecond is not 0.
\<close>

definition isoformat :: "datetime \<Rightarrow> string" where
  "isoformat dt =
     zfill 4 (str_nat (year dt)) @ ''-'' @ zfill 2 (str_nat (month dt)) @ ''-'' @
     zfill 2 (str_nat (day dt)) @ ''T'' @
     zfill 2 (str_nat (hour dt)) @ '':'' @ zfill 2 (str_nat (minute dt)) @ '':'' @
     zfill 2 (str_nat (second dt)) @
     (if microsecond dt = 0 then [] else ''.'' @ zfill 6 (str_nat (microsecond dt)))"

declare str_nat.simps [simp del]

fun join :: "string \<Rightarrow> string list \<Rightarrow> string" where
  "join sep [] = []"
| "join sep [x] = x"
| "join sep (x # y # ys) = x @ sep @ join sep (y # ys)"

text \<open>Assignment to a key of a Python dict: in place when the key is there, else at the end.\<close>

fun dict_set :: "('k \<times> 'v) list \<Rightarrow> 'k \<Rightarrow> 'v \<Rightarrow> ('k \<times> 'v) list" where
  "dict_set [] k v = [(k, v)]"
| "dict_set (p # ps) k v = (if fst p = k then (k, v) # ps else p # dict_set ps k v)"

section \<open>\<open>rollout_restart_deployment\<close>\<close>

record envelope =
  success :: bool
  message :: string
  deployment_name :: string
  namespace :: string

definition patch_body :: "string \<Rightarrow> json" where
  "patch_body now =
     JObject [(''spec'', JObject [(''template'', JObject [(''metadata'',
       JObject [(''annotations'',
         JObject [(''kubectl.kubernetes.io/restartedAt'', JString now)])])])])]"

definition restart_initiated :: "string \<Rightarrow> string \<Rightarrow> envelope" where
  "restart_initiated name ns =
     \<lparr>success = True,
      message = ''Deployment '' @ q @ name @ q @ '' in namespace '' @ q @ ns @ q @
                '' rollout restart initiated'',
      deployment_name = name, namespace = ns\<rparr>"

definition restart_failed :: "string \<Rightarrow> string \<Rightarrow> string \<Rightarrow> envelope" where
  "restart_failed msg name ns =
     \<lparr>success = False, message = msg, deployment_name = name, namespace = ns\<rparr>"

definition kubeconfig_not_found :: string where
  "kubeconfig_not_found = ''Kubeconfig file not found at '' @ KUBECONFIG_PATH"

definition deployment_not_found :: "string \<Rightarrow> string \<Rightarrow> string" where
  "deployment_not_found name ns =
     ''Deployment '' @ q @ name @ q @ '' not found in namespace '' @ q @ ns @ q"

text \<open>Lines 219 to 250: the body of the inner \<open>try\<close>.\<close>

definition restart_try :: "env \<Rightarrow> string \<Rightarrow> string \<Rightarrow> world \<Rightarrow> (exn + envelope) \<times> world" where
  "restart_try e name ns w =
     (let w1 = issue (ReadNamespacedDeployment name ns) w in
      case read_namespaced_deployment e (calls w) name ns of
        Raises x \<Rightarrow> (Inl x, w1)
      | Returns deployment \<Rightarrow>
          (let now = isoformat (utcnow e (calls w1)) @ ''Z'';
               body = patch_body now;
               w2 = issue (PatchNamespacedDeployment name ns body) w1 in
           case patch_namespaced_deployment e (calls w1) name ns body of
             Raises x \<Rightarrow> (Inl x, w2)
           | Returns result \<Rightarrow> (Inr (restart_initiated name ns), w2)))"

text \<open>Lines 252 to 266: \<open>except client.rest.ApiException\<close>; anything else goes on.\<close>

fun restart_except_api :: "string \<Rightarrow> string \<Rightarrow> exn \<Rightarrow> exn + envelope" where
  "restart_except_api name ns (ApiException st text) =
     (if st = 404 then Inr (restart_failed (deployment_not_found name ns) name ns)
      else Inr (restart_failed (''API Error: '' @ text) name ns))"
| "restart_except_api name ns (OtherException text) = Inl (OtherException text)"

text \<open>Lines 203 to 266: the body of the outer \<open>try\<close>.\<close>

definition restart_outer_try :: "env \<Rightarrow> string \<Rightarrow> string \<Rightarrow> world \<Rightarrow> (exn + envelope) \<times> world" where
  "restart_outer_try e name ns w =
     (if \<not> kubeconfig_is_file e then (Inr (restart_failed kubeconfig_not_found name ns), w)
      else case load_kube_config e of
        Some x \<Rightarrow> (Inl x, w)
      | None \<Rightarrow>
          (case restart_try e name ns w of
             (Inl x, w') \<Rightarrow> (restart_except_api name ns x, w')
           | (Inr r, w') \<Rightarrow> (Inr r, w')))"

text \<open>
  The whole function, with \<open>except Exception\<close> of lines 268 to 274. The result is
  \<open>Inl\<close> when an exception leaves the function.
\<close>

definition rollout_restart_deployment ::
  "env \<Rightarrow> string \<Rightarrow> string \<Rightarrow> world \<Rightarrow> (exn + envelope) \<times> world" where
  "rollout_restart_deployment e name ns w =
     (case restart_outer_try e name ns w of
        (Inl x, w') \<Rightarrow> (Inr (restart_failed (''Error: '' @ str_exn x) name ns), w')
      | (Inr r, w') \<Rightarrow> (Inr r, w'))"

section \<open>\<open>get_deployment_logs\<close>\<close>

record logs_envelope = envelope +
  logs :: "(string \<times> string) list"

definition logs_failed :: "string \<Rightarrow> string \<Rightarrow> string \<Rightarrow> logs_envelope" where
  "logs_failed msg name ns =
     \<lparr>success = False, message = msg, deployment_name = name, namespace = ns, logs = []\<rparr>"

definition logs_retrieved :: "(string \<times> string) list \<Rightarrow> string \<Rightarrow> string \<Rightarrow> logs_envelope" where
  "logs_retrieved logs_dict name ns =
     \<lparr>success = True,
      message = ''Retrieved logs for '' @ str_nat (length logs_dict) @
                '' pods in deployment '' @ q @ name @ q,
      deployment_name = name, namespace = ns, logs = logs_dict\<rparr>"

definition no_pods_found :: "string \<Rightarrow> string \<Rightarrow> string" where
  "no_pods_found name ns =
     ''No pods found for deployment '' @ q @ name @ q @ '' in namespace '' @ q @ ns @ q"

definition none_has_no_attribute :: "string \<Rightarrow> exn" where
  "none_has_no_attribute a =
     OtherException (q @ ''NoneType'' @ q @ '' object has no attribute '' @ q @ a @ q)"

definition label_selector_of :: "(string \<times> string) list \<Rightarrow> string" where
  "label_selector_of selector = join '','' (map (\<lambda>(k, v). k @ ''='' @ v) selector)"

text \<open>
  Lines 353 to 364: the loop over \<open>pods.items\<close>. An \<open>ApiException\<close> of one pod is
  written into \<open>logs_dict\<close>; any other exception leaves the loop.
\<close>

fun fetch_pod_logs ::
  "env \<Rightarrow> string \<Rightarrow> int \<Rightarrow> int option \<Rightarrow> pod list \<Rightarrow> (string \<times> string) list \<Rightarrow> world \<Rightarrow>
   (exn + (string \<times> string) list) \<times> world" where
  "fetch_pod_logs e ns since_seconds tail_lines [] logs_dict w = (Inr logs_dict, w)"
| "fetch_pod_logs e ns since_seconds tail_lines (p # ps) logs_dict w =
     (let w' = issue (ReadNamespacedPodLog (pod_name p) ns since_seconds tail_lines) w in
      case read_namespaced_pod_log e (calls w) (pod_name p) ns since_seconds tail_lines of
        Returns pod_logs \<Rightarrow>
          fetch_pod_logs e ns since_seconds tail_lines ps
            (dict_set logs_dict (pod_name p) pod_logs) w'
      | Raises (ApiException st text) \<Rightarrow>
          fetch_pod_logs e ns since_seconds tail_lines ps
            (dict_set logs_dict (pod_name p) (''Error retrieving logs: '' @ text)) w'
      | Raises (OtherException text) \<Rightarrow> (Inl (OtherException text), w'))"

text \<open>
  Lines 324 to 372: the body of the inner \<open>try\<close>. \<open>hours\<close> is an \<open>int\<close>, as the
  docstring says, so \<open>int(hours * 3600)\<close> is the product.
\<close>

definition logs_try ::
  "env \<Rightarrow> string \<Rightarrow> string \<Rightarrow> int \<Rightarrow> int option \<Rightarrow> world \<Rightarrow> (exn + logs_envelope) \<times> world" where
  "logs_try e name ns hours tail_lines w =
     (let w1 = issue (ReadNamespacedDeployment name ns) w in
      case read_namespaced_deployment e (calls w) name ns of
        Raises x \<Rightarrow> (Inl x, w1)
      | Returns deployment \<Rightarrow>
          (case spec deployment of
             None \<Rightarrow> (Inl (none_has_no_attribute ''selector''), w1)
           | Some sp \<Rightarrow>
               (case match_labels sp of
                  None \<Rightarrow> (Inl (none_has_no_attribute ''items''), w1)
                | Some selector \<Rightarrow>
                    (let label_selector = label_selector_of selector;
                         w2 = issue (ListNamespacedPod ns (Some label_selector)) w1 in
                     case list_namespaced_pod e (calls w1) ns (Some label_selector) of
                       Raises x \<Rightarrow> (Inl x, w2)
                     | Returns items \<Rightarrow>
                         if items = [] then (Inr (logs_failed (no_pods_found name ns) name ns), w2)
                         else
                           (let since_seconds = hours * 3600 in
                            case fetch_pod_logs e ns since_seconds tail_lines items [] w2 of
                              (Inl x, w3) \<Rightarrow> (Inl x, w3)
                            | (Inr logs_dict, w3) \<Rightarrow>
                                (Inr (logs_retrieved logs_dict name ns), w3))))))"

text \<open>Lines 374 to 390.\<close>

fun logs_except_api :: "string \<Rightarrow> string \<Rightarrow> exn \<Rightarrow> exn + logs_envelope" where
  "logs_except_api name ns (ApiException st text) =
     (if st = 404 then Inr (logs_failed (deployment_not_found name ns) name ns)
      else Inr (logs_failed (''API Error: '' @ text) name ns))"
| "logs_except_api name ns (OtherException text) = Inl (OtherException text)"

definition logs_outer_try ::
  "env \<Rightarrow> string \<Rightarrow> string \<Rightarrow> int \<Rightarrow> int option \<Rightarrow> world \<Rightarrow> (exn + logs_envelope) \<times> world" where
  "logs_outer_try e name ns hours tail_lines w =
     (if \<not> kubeconfig_is_file e then (Inr (logs_failed kubeconfig_not_found name ns), w)
      else case load_kube_config e of
        Some x \<Rightarrow> (Inl x, w)
      | None \<Rightarrow>
          (case logs_try e name ns hours tail_lines w of
             (Inl x, w') \<Rightarrow> (logs_except_api name ns x, w')
           | (Inr r, w') \<Rightarrow> (Inr r, w')))"

text \<open>The whole function, with \<open>except Exception\<close> of lines 392 to 399.\<close>

definition get_deployment_logs ::
  "env \<Rightarrow> string \<Rightarrow> string \<Rightarrow> int \<Rightarrow> int option \<Rightarrow> world \<Rightarrow> (exn + logs_envelope) \<times> world" where
  "get_deployment_logs e name ns hours tail_lines w =
     (case logs_outer_try e name ns hours tail_lines w of
        (Inl x, w') \<Rightarrow> (Inr (logs_failed (''Error: '' @ str_exn x) name ns), w')
      | (Inr r, w') \<Rightarrow> (Inr r, w'))"

section \<open>\<open>list_pods_in_namespace\<close> and \<open>list_deployments_in_namespace\<close>\<close>

record pod_info =
  pod_info_name :: string
  pod_info_status :: "string option"
  pod_info_ip :: "string option"

definition pod_info_of :: "pod \<Rightarrow> pod_info" where
  "pod_info_of p =
     \<lparr>pod_info_name = pod_name p, pod_info_status = phase p, pod_info_ip = pod_ip p\<rparr>"

text \<open>Lines 67 to 72 and 164 to 169: the handler prints and the function returns \<open>[]\<close>.\<close>

fun list_except_api :: "string \<Rightarrow> exn \<Rightarrow> world \<Rightarrow> (exn + 'a list) \<times> world" where
  "list_except_api ns (ApiException st text) w =
     (if st = 404 then (Inr [], print (''Error: Namespace '' @ q @ ns @ q @ '' not found'') w)
      else (Inr [], print (''API Error: '' @ text) w))"
| "list_except_api ns (OtherException text) w = (Inl (OtherException text), w)"

definition list_pods_outer_try :: "env \<Rightarrow> string \<Rightarrow> world \<Rightarrow> (exn + pod_info list) \<times> world" where
  "list_pods_outer_try e ns w =
     (if \<not> kubeconfig_is_file e
      then (Inr [], print (''Error: Kubeconfig file not found at '' @ KUBECONFIG_PATH) w)
      else case load_kube_config e of
        Some x \<Rightarrow> (Inl x, w)
      | None \<Rightarrow>
          (let w1 = issue (ListNamespacedPod ns None) w in
           case list_namespaced_pod e (calls w) ns None of
             Raises x \<Rightarrow> list_except_api ns x w1
           | Returns items \<Rightarrow> (Inr (map pod_info_of items), w1)))"

definition list_pods_in_namespace :: "env \<Rightarrow> string \<Rightarrow> world \<Rightarrow> (exn + pod_info list) \<times> world" where
  "list_pods_in_namespace e ns w =
     (case list_pods_outer_try e ns w of
        (Inl x, w') \<Rightarrow> (Inr [], print (''Error: '' @ str_exn x) w')
      | (Inr r, w') \<Rightarrow> (Inr r, w'))"

text \<open>
  The dictionary built for one deployment, lines 125 to 159. \<open>age_minutes\<close> is a
  floating-point reading of the wall clock and is left out; nothing below reads it.
  \<open>total_replicas\<close> is \<open>deployment.spec.replicas\<close> as it is, which may be \<open>None\<close>.
\<close>

record deployment_info =
  info_name :: string
  ready_replicas :: int
  total_replicas :: "int option"
  available_replicas :: int
  up_to_date_replicas :: int
  image :: "string list"
  is_healthy :: bool

definition or_0 :: "int option \<Rightarrow> int" where
  "or_0 x = (case x of None \<Rightarrow> 0 | Some v \<Rightarrow> v)"

definition images_of :: "deployment \<Rightarrow> string list" where
  "images_of d =
     (case spec d of
        None \<Rightarrow> []
      | Some sp \<Rightarrow>
          (case template sp of
             None \<Rightarrow> []
           | Some t \<Rightarrow> (case template_spec t of None \<Rightarrow> [] | Some containers \<Rightarrow> containers)))"

definition deployment_info_of :: "deployment \<Rightarrow> deployment_info" where
  "deployment_info_of d =
     (let total = (case spec d of None \<Rightarrow> Some 0 | Some sp \<Rightarrow> replicas sp);
          ready = (case status d of None \<Rightarrow> Some 0 | Some st \<Rightarrow> status_ready_replicas st);
          available = (case status d of None \<Rightarrow> Some 0 | Some st \<Rightarrow> status_available_replicas st);
          up_to_date = (case status d of None \<Rightarrow> Some 0 | Some st \<Rightarrow> status_updated_replicas st)
      in \<lparr>info_name = metadata_name d,
          ready_replicas = or_0 ready,
          total_replicas = total,
          available_replicas = or_0 available,
          up_to_date_replicas = or_0 up_to_date,
          image = images_of d,
          is_healthy = (ready \<noteq> None \<and> ready = total \<and> available \<noteq> None \<and> available = total)\<rparr>)"

definition list_deployments_outer_try ::
  "env \<Rightarrow> string \<Rightarrow> world \<Rightarrow> (exn + deployment_info list) \<times> world" where
  "list_deployments_outer_try e ns w =
     (if \<not> kubeconfig_is_file e
      then (Inr [], print (''Error: Kubeconfig file not found at '' @ KUBECONFIG_PATH) w)
      else case load_kube_config e of
        Some x \<Rightarrow> (Inl x, w)
      | None \<Rightarrow>
          (let w1 = issue (ListNamespacedDeployment ns) w in
           case list_namespaced_deployment e (calls w) ns of
             Raises x \<Rightarrow> list_except_api ns x w1
           | Returns items \<Rightarrow> (Inr (map deployment_info_of items), w1)))"

definition list_deployments_in_namespace ::
  "env \<Rightarrow> string \<Rightarrow> world \<Rightarrow> (exn + deployment_info list) \<times> world" where
  "list_deployments_in_namespace e ns w =
     (case list_deployments_outer_try e ns w of
        (Inl x, w') \<Rightarrow> (Inr [], print (''Error: '' @ str_exn x) w')
      | (Inr r, w') \<Rightarrow> (Inr r, w'))"

section \<open>Two restart requests for one deployment\<close>

text \<open>
  A request is suspended where it waits for the cluster. \<open>rollout_restart_deployment\<close>
  waits twice: for \<open>read_namespaced_deployment\<close> and for
  \<open>patch_namespaced_deployment\<close>. \<open>restart_step\<close> runs one request up to the end of its
  next call; between the two steps the request is in flight, and another request may run.
  The function keeps no record of the requests in flight: the only state two requests
  share is the cluster.
\<close>

datatype restart_pc = Start | InFlight | Finished envelope

definition restart_handlers :: "string \<Rightarrow> string \<Rightarrow> exn \<Rightarrow> envelope" where
  "restart_handlers name ns x =
     (case restart_except_api name ns x of
        Inr r \<Rightarrow> r
      | Inl x' \<Rightarrow> restart_failed (''Error: '' @ str_exn x') name ns)"

fun restart_step :: "env \<Rightarrow> string \<Rightarrow> string \<Rightarrow> restart_pc \<Rightarrow> world \<Rightarrow> restart_pc \<times> world" where
  "restart_step e name ns Start w =
     (if \<not> kubeconfig_is_file e then (Finished (restart_failed kubeconfig_not_found name ns), w)
      else case load_kube_config e of
        Some x \<Rightarrow> (Finished (restart_failed (''Error: '' @ str_exn x) name ns), w)
      | None \<Rightarrow>
          (let w1 = issue (ReadNamespacedDeployment name ns) w in
           case read_namespaced_deployment e (calls w) name ns of
             Raises x \<Rightarrow> (Finished (restart_handlers name ns x), w1)
           | Returns deployment \<Rightarrow> (InFlight, w1)))"
| "restart_step e name ns InFlight w =
     (let now = isoformat (utcnow e (calls w)) @ ''Z'';
          body = patch_body now;
          w2 = issue (PatchNamespacedDeployment name ns body) w in
      case patch_namespaced_deployment e (calls w) name ns body of
        Raises x \<Rightarrow> (Finished (restart_handlers name ns x), w2)
      | Returns result \<Rightarrow> (Finished (restart_initiated name ns), w2))"
| "restart_step e name ns (Finished r) w = (Finished r, w)"

text \<open>
  Two requests for the same deployment under a schedule: \<open>True\<close> lets the first request
  take its next step, \<open>False\<close> the second.
\<close>

fun run_two ::
  "env \<Rightarrow> string \<Rightarrow> string \<Rightarrow> bool list \<Rightarrow> restart_pc \<times> restart_pc \<times> world \<Rightarrow>
   restart_pc \<times> restart_pc \<times> world" where
  "run_two e name ns [] s = s"
| "run_two e name ns (b # bs) (pa, pb, w) =
     (if b then (case restart_step e name ns pa w of (pa', w') \<Rightarrow> run_two e name ns bs (pa', pb, w'))
      else (case restart_step e name ns pb w of (pb', w') \<Rightarrow> run_two e name ns bs (pa, pb', w')))"

fun is_patch :: "api_call \<Rightarrow> bool" where
  "is_patch (PatchNamespacedDeployment name ns body) = True"
| "is_patch c = False"

definition patch_calls :: "api_call list \<Rightarrow> nat" where
  "patch_calls cs = length (filter is_patch cs)"

fun steps_left :: "restart_pc \<Rightarrow> nat" where
  "steps_left Start = 2"
| "steps_left InFlight = 1"
| "steps_left (Finished r) = 0"

section \<open>The timestamp format\<close>

text \<open>
  RFC 3339 \<open>date-time\<close> in UTC, read from left to right: \<open>4DIGIT "-" 2DIGIT "-" 2DIGIT
  "T" 2DIGIT ":" 2DIGIT ":" 2DIGIT ["." 1*DIGIT] "Z"\<close>, with the month in 01 to 12, the day
  in 01 to the length of the month, the hour in 00 to 23, the minute in 00 to 59 and the
  second in 00 to 60 (a leap second). \<open>parse_rfc3339\<close> returns the fields it reads, the
  fraction as microseconds (its first six digits).
\<close>

definition is_digit :: "char \<Rightarrow> bool" where
  "is_digit c = (c \<in> set ''0123456789'')"

definition digit_val :: "char \<Rightarrow> nat" where
  "digit_val c = of_char c - 48"

definition nat_of_digits :: "string \<Rightarrow> nat" where
  "nat_of_digits s = foldl (\<lambda>n c. 10 * n + digit_val c) 0 s"

definition number :: "nat \<Rightarrow> string \<Rightarrow> (nat \<times> string) option" where
  "number k s =
     (if k \<le> length s \<and> list_all is_digit (take k s)
      then Some (nat_of_digits (take k s), drop k s) else None)"

fun lit :: "char \<Rightarrow> string \<Rightarrow> string option" where
  "lit c [] = None"
| "lit c (d # s) = (if c = d then Some s else None)"

definition secfrac_z :: "string \<Rightarrow> nat option" where
  "secfrac_z s =
     (if s = ''Z'' then Some 0
      else case lit (CHR ''.'') s of
        None \<Rightarrow> None
      | Some r \<Rightarrow>
          if takeWhile is_digit r \<noteq> [] \<and> dropWhile is_digit r = ''Z''
          then Some (nat_of_digits (take 6 (takeWhile is_digit r @ ''000000'')))
          else None)"

definition leap_year :: "nat \<Rightarrow> bool" where
  "leap_year y = (y mod 4 = 0 \<and> (y mod 100 \<noteq> 0 \<or> y mod 400 = 0))"

definition days_in_month :: "nat \<Rightarrow> nat \<Rightarrow> nat" where
  "days_in_month y m =
     (if m = 2 then (if leap_year y then 29 else 28)
      else if m = 4 \<or> m = 6 \<or> m = 9 \<or> m = 11 then 30 else 31)"

datatype item = Num nat | Lit char

fun scan :: "item list \<Rightarrow> string \<Rightarrow> (nat list \<times> string) option" where
  "scan [] s = Some ([], s)"
| "scan (Num k # items) s =
     (case number k s of
        None \<Rightarrow> None
      | Some (n, r) \<Rightarrow> (case scan items r of None \<Rightarrow> None | Some (ns, r') \<Rightarrow> Some (n # ns, r')))"
| "scan (Lit c # items) s = (case lit c s of None \<Rightarrow> None | Some r \<Rightarrow> scan items r)"

definition date_time_items :: "item list" where
  "date_time_items =
     [Num 4, Lit (CHR ''-''), Num 2, Lit (CHR ''-''), Num 2, Lit (CHR ''T''),
      Num 2, Lit (CHR '':''), Num 2, Lit (CHR '':''), Num 2]"

definition in_range :: "nat list \<Rightarrow> bool" where
  "in_range ns =
     (length ns = 6 \<and> 1 \<le> ns ! 1 \<and> ns ! 1 \<le> 12 \<and>
      1 \<le> ns ! 2 \<and> ns ! 2 \<le> days_in_month (ns ! 0) (ns ! 1) \<and>
      ns ! 3 \<le> 23 \<and> ns ! 4 \<le> 59 \<and> ns ! 5 \<le> 60)"

definition parse_rfc3339 :: "string \<Rightarrow> datetime option" where
  "parse_rfc3339 s =
     (case scan date_time_items s of
        None \<Rightarrow> None
      | Some (ns, rest) \<Rightarrow>
          (case secfrac_z rest of
             None \<Rightarrow> None
           | Some us \<Rightarrow>
               if in_range ns
               then Some \<lparr>year = ns ! 0, month = ns ! 1, day = ns ! 2, hour = ns ! 3,
                          minute = ns ! 4, second = ns ! 5, microsecond = us\<rparr>
               else None))"

definition rfc3339_utc :: "string \<Rightarrow> bool" where
  "rfc3339_utc s = (parse_rfc3339 s \<noteq> None)"

text \<open>The values a Python \<open>datetime\<close> can hold.\<close>

definition valid_datetime :: "datetime \<Rightarrow> bool" where
  "valid_datetime dt =
     (1 \<le> year dt \<and> year dt \<le> 9999 \<and> 1 \<le> month dt \<and> month dt \<le> 12 \<and>
      1 \<le> day dt \<and> day dt \<le> days_in_month (year dt) (month dt) \<and>
      hour dt < 24 \<and> minute dt < 60 \<and> second dt < 60 \<and> microsecond dt < 1000000)"


definition restartedAt_path :: "string list" where
  "restartedAt_path =
     [''spec'', ''template'', ''metadata'', ''annotations'', ''kubectl.kubernetes.io/restartedAt'']"

section \<open>A stub cluster\<close>

text \<open>
  One namespace with two deployments: \<open>checkout\<close>, scaled to zero (the API server omits
  the zero-valued counts of its status), and \<open>web\<close>, with three pods, of which
  \<open>web-b\<close> does not serve its log.
\<close>

definition checkout :: deployment where
  "checkout =
     \<lparr>metadata_name = ''checkout'',
      spec = Some \<lparr>replicas = Some 0, match_labels = Some [(''app'', ''checkout'')],
                   template = Some \<lparr>template_spec = Some [''shop/checkout:1.4'']\<rparr>\<rparr>,
      status = Some \<lparr>status_ready_replicas = None, status_available_replicas = None,
                     status_updated_replicas = None\<rparr>\<rparr>"

definition web :: deployment where
  "web =
     \<lparr>metadata_name = ''web'',
      spec = Some \<lparr>replicas = Some 3, match_labels = Some [(''app'', ''web'')],
                   template = Some \<lparr>template_spec = Some [''shop/web:2.0'']\<rparr>\<rparr>,
      status = Some \<lparr>status_ready_replicas = Some 3, status_available_replicas = Some 3,
                     status_updated_replicas = Some 3\<rparr>\<rparr>"

definition web_pods :: "pod list" where
  "web_pods =
     [\<lparr>pod_name = ''web-a'', phase = Some ''Running'', pod_ip = Some ''10.42.0.11''\<rparr>,
      \<lparr>pod_name = ''web-b'', phase = Some ''Pending'', pod_ip = None\<rparr>,
      \<lparr>pod_name = ''web-c'', phase = Some ''Running'', pod_ip = Some ''10.42.0.13''\<rparr>]"

definition not_found_404 :: exn where
  "not_found_404 = ApiException 404 ''(404) Reason: Not Found''"

definition unavailable_503 :: exn where
  "unavailable_503 = ApiException 503 ''(503) Reason: Service Unavailable''"

definition stub :: env where
  "stub =
     \<lparr>kubeconfig_is_file = True,
      load_kube_config = None,
      utcnow = (\<lambda>h. \<lparr>year = 2024, month = 5, day = 17, hour = 9, minute = 3, second = 7,
                      microsecond = 4200\<rparr>),
      list_namespaced_pod = (\<lambda>h ns sel.
        if ns \<noteq> ''default'' then Returns []
        else if sel = None \<or> sel = Some ''app=web'' then Returns web_pods
        else Returns []),
      list_namespaced_deployment = (\<lambda>h ns.
        if ns = ''default'' then Returns [checkout, web] else Returns []),
      read_namespaced_deployment = (\<lambda>h name ns.
        if ns = ''default'' \<and> name = ''checkout'' then Returns checkout
        else if ns = ''default'' \<and> name = ''web'' then Returns web
        else Raises not_found_404),
      patch_namespaced_deployment = (\<lambda>h name ns body.
        if ns = ''default'' \<and> (name = ''checkout'' \<or> name = ''web'') then Returns ()
        else Raises not_found_404),
      read_namespaced_pod_log = (\<lambda>h name ns since_seconds tail_lines.
        if name = ''web-b'' then Raises (ApiException 400 ''(400) Reason: Bad Request'')
        else Returns (''started '' @ name))\<rparr>"

text \<open>A cluster whose patch endpoint fails twice and then succeeds.\<close>

definition flaky :: env where
  "flaky =
     stub\<lparr>patch_namespaced_deployment := (\<lambda>h name ns body.
       if patch_calls h < 2 then Raises unavailable_503 else Returns ())\<rparr>"


definition w0 :: world where
  "w0 = \<lparr>calls = [], stdout = []\<rparr>"

section \<open>What one restart call returns and issues\<close>

lemma restart_result:
  "fst (rollout_restart_deployment e name ns w) =
     Inr (if \<not> kubeconfig_is_file e then restart_failed kubeconfig_not_found name ns
          else case load_kube_config e of
            Some x \<Rightarrow> restart_failed (''Error: '' @ str_exn x) name ns
          | None \<Rightarrow>
             (case read_namespaced_deployment e (calls w) name ns of
                Raises x \<Rightarrow> restart_handlers name ns x
              | Returns d \<Rightarrow>
                 (case patch_namespaced_deployment e
                         (calls w @ [ReadNamespacedDeployment name ns]) name ns
                         (patch_body (isoformat
                            (utcnow e (calls w @ [ReadNamespacedDeployment name ns])) @ ''Z'')) of
                    Raises x \<Rightarrow> restart_handlers name ns x
                  | Returns u \<Rightarrow> restart_initiated name ns)))"
  by (auto simp: rollout_restart_deployment_def restart_outer_try_def restart_try_def
      restart_handlers_def issue_def Let_def
      split: option.splits outcome.splits exn.splits sum.splits prod.splits)

lemma restart_calls:
  "calls (snd (rollout_restart_deployment e name ns w)) =
     calls w @
     (if \<not> kubeconfig_is_file e \<or> load_kube_config e \<noteq> None then []
      else ReadNamespacedDeployment name ns #
        (case read_namespaced_deployment e (calls w) name ns of
           Raises x \<Rightarrow> []
         | Returns d \<Rightarrow>
             [PatchNamespacedDeployment name ns
               (patch_body (isoformat
                  (utcnow e (calls w @ [ReadNamespacedDeployment name ns])) @ ''Z''))]))"
  by (auto simp: rollout_restart_deployment_def restart_outer_try_def restart_try_def
      issue_def Let_def
      split: option.splits outcome.splits exn.splits sum.splits prod.splits)

lemma patch_calls_append [simp]: "patch_calls (xs @ ys) = patch_calls xs + patch_calls ys"
  by (simp add: patch_calls_def)

lemma patch_calls_simps [simp]:
  "patch_calls [] = 0"
  "patch_calls (c # cs) = (if is_patch c then 1 else 0) + patch_calls cs"
  by (simp_all add: patch_calls_def)

lemma stub_simps [simp]:
  "kubeconfig_is_file stub"
  "load_kube_config stub = None"
  "read_namespaced_deployment stub h ''checkout'' ''default'' = Returns checkout"
  "read_namespaced_deployment stub h ''web'' ''default'' = Returns web"
  "read_namespaced_deployment stub h ''missing'' ''default'' = Raises not_found_404"
  "patch_namespaced_deployment stub h ''checkout'' ''default'' b = Returns ()"
  "patch_namespaced_deployment stub h ''web'' ''default'' b = Returns ()"
  by (simp_all add: stub_def)

section \<open>Restart: not found, or acknowledged whatever the replica count\<close>

text \<open>
  C7. With the kubeconfig in place: when the read of the deployment answers 404, the call
  returns the failure envelope whose message says the deployment was not found, and no
  patch is issued. When the read returns a deployment and the patch is acknowledged, the
  call returns the success envelope, whatever the deployment \<open>d\<close> holds: the replica
  count is never read.
\<close>

theorem restart_not_found_or_acked:
  assumes "kubeconfig_is_file e" and "load_kube_config e = None"
  shows "(read_namespaced_deployment e (calls w) name ns = Raises (ApiException 404 text) \<longrightarrow>
            fst (rollout_restart_deployment e name ns w) =
              Inr \<lparr>success = False, message = deployment_not_found name ns,
                   deployment_name = name, namespace = ns\<rparr> \<and>
            patch_calls (calls (snd (rollout_restart_deployment e name ns w))) =
              patch_calls (calls w)) \<and>
         (read_namespaced_deployment e (calls w) name ns = Returns d \<and>
          patch_namespaced_deployment e (calls w @ [ReadNamespacedDeployment name ns]) name ns
            (patch_body (isoformat
               (utcnow e (calls w @ [ReadNamespacedDeployment name ns])) @ ''Z'')) = Returns () \<longrightarrow>
            fst (rollout_restart_deployment e name ns w) = Inr (restart_initiated name ns) \<and>
            success (restart_initiated name ns))"
  using assms
  by (simp add: restart_result restart_calls restart_handlers_def restart_failed_def
      restart_initiated_def)

theorem restart_not_found_or_acked_witness:
  "replicas (the (spec checkout)) = Some 0 \<and>
   fst (rollout_restart_deployment stub ''checkout'' ''default'' w0) =
     Inr (restart_initiated ''checkout'' ''default'') \<and>
   fst (rollout_restart_deployment stub ''missing'' ''default'' w0) =
     Inr \<lparr>success = False, message = deployment_not_found ''missing'' ''default'',
          deployment_name = ''missing'', namespace = ''default''\<rparr>"
  using restart_not_found_or_acked
      [OF stub_simps(1) stub_simps(2), of w0 "''checkout''" "''default''" _ checkout]
    restart_not_found_or_acked
      [OF stub_simps(1) stub_simps(2), of w0 "''missing''" "''default''"
        "''(404) Reason: Not Found''"]
  by (simp add: checkout_def not_found_404_def)

section \<open>Restart: a failed patch is not retried\<close>

lemma flaky_simps [simp]:
  "kubeconfig_is_file flaky"
  "load_kube_config flaky = None"
  "read_namespaced_deployment flaky h ''web'' ''default'' = Returns web"
  "patch_namespaced_deployment flaky h name ns b =
     (if patch_calls h < 2 then Raises unavailable_503 else Returns ())"
  by (simp_all add: flaky_def stub_def)

text \<open>
  C2, as stated, fails: on a cluster whose patch endpoint fails twice and then succeeds,
  the call issues one patch, not three, and returns the failure envelope of the first
  error.
\<close>

theorem restart_retry_counterexample:
  "fst (rollout_restart_deployment flaky ''web'' ''default'' w0) =
     Inr \<lparr>success = False, message = ''API Error: (503) Reason: Service Unavailable'',
          deployment_name = ''web'', namespace = ''default''\<rparr> \<and>
   patch_calls (calls (snd (rollout_restart_deployment flaky ''web'' ''default'' w0))) = 1"
  by (simp add: restart_result restart_calls restart_handlers_def restart_failed_def
      unavailable_503_def w0_def)

text \<open>
  C2, amended. A restart call never issues more than one patch. When the patch fails with
  an \<open>ApiException\<close>, it is not retried: exactly one patch has been issued and the call
  returns the failure envelope carrying that error (the not-found message for status 404,
  \<open>API Error:\<close> and the error's text otherwise).
\<close>

theorem restart_patch_not_retried:
  "patch_calls (calls (snd (rollout_restart_deployment e name ns w))) \<le> patch_calls (calls w) + 1 \<and>
   (kubeconfig_is_file e \<and> load_kube_config e = None \<and>
    read_namespaced_deployment e (calls w) name ns = Returns d \<and>
    patch_namespaced_deployment e (calls w @ [ReadNamespacedDeployment name ns]) name ns
      (patch_body (isoformat
         (utcnow e (calls w @ [ReadNamespacedDeployment name ns])) @ ''Z'')) =
      Raises (ApiException st text) \<longrightarrow>
    patch_calls (calls (snd (rollout_restart_deployment e name ns w))) = patch_calls (calls w) + 1 \<and>
    fst (rollout_restart_deployment e name ns w) =
      Inr \<lparr>success = False,
           message = (if st = 404 then deployment_not_found name ns else ''API Error: '' @ text),
           deployment_name = name, namespace = ns\<rparr>)"
  by (auto simp: restart_result restart_calls restart_handlers_def restart_failed_def
      split: outcome.splits)

theorem restart_patch_not_retried_witness:
  "patch_calls (calls (snd (rollout_restart_deployment flaky ''web'' ''default'' w0))) = 0 + 1 \<and>
   fst (rollout_restart_deployment flaky ''web'' ''default'' w0) =
     Inr \<lparr>success = False, message = ''API Error: (503) Reason: Service Unavailable'',
          deployment_name = ''web'', namespace = ''default''\<rparr>"
  using restart_patch_not_retried [of flaky "''web''" "''default''" w0 web 503
      "''(503) Reason: Service Unavailable''"]
  by (simp add: unavailable_503_def w0_def)

section \<open>The loop over the pods\<close>

lemma fetch_pod_logs_raises:
  "fst (fetch_pod_logs e ns s tail ps acc w) = Inl x \<Longrightarrow> \<exists>t. x = OtherException t"
  by (induction ps arbitrary: acc w)
     (auto simp: Let_def split: outcome.splits exn.splits)




lemma fetch_pod_logs_extends:
  "\<exists>rest. calls (snd (fetch_pod_logs e ns s tail ps acc w)) = calls w @ rest"
proof (induction ps arbitrary: acc w)
  case Nil
  then show ?case by simp
next
  case (Cons p ps)
  have "\<exists>rest. calls (snd (fetch_pod_logs e ns s tail ps acc'
           (issue (ReadNamespacedPodLog (pod_name p) ns s tail) w))) =
          calls w @ rest" for acc'
    using Cons.IH [of acc' "issue (ReadNamespacedPodLog (pod_name p) ns s tail) w"]
    by (auto simp: issue_def)
  then show ?case
    by (auto simp: Let_def issue_def split: outcome.splits exn.splits)
qed

lemma fetch_pod_logs_extendsD:
  "fetch_pod_logs e ns s tail ps acc w = (r, w') \<Longrightarrow> \<exists>rest. calls w' = calls w @ rest"
  using fetch_pod_logs_extends [of e ns s tail ps acc w] by simp

section \<open>What one log fetch issues\<close>

lemma logs_try_calls:
  "\<exists>rest. calls (snd (logs_try e name ns hours tail w)) =
           calls w @ ReadNamespacedDeployment name ns # rest"
  by (auto simp: logs_try_def Let_def issue_def
      split: option.splits outcome.splits sum.splits prod.splits
      dest!: fetch_pod_logs_extendsD)

lemma logs_calls_start:
  assumes "kubeconfig_is_file e" and "load_kube_config e = None"
  shows "\<exists>rest. calls (snd (get_deployment_logs e name ns hours tail w)) =
           calls w @ ReadNamespacedDeployment name ns # rest"
  using assms logs_try_calls [of e name ns hours tail w]
  by (auto simp: get_deployment_logs_def logs_outer_try_def
      split: sum.splits prod.splits)

lemma logs_calls_none:
  assumes "\<not> kubeconfig_is_file e \<or> load_kube_config e \<noteq> None"
  shows "snd (get_deployment_logs e name ns hours tail w) = w \<and>
         (\<exists>r. fst (get_deployment_logs e name ns hours tail w) = Inr r \<and> \<not> success r)"
  using assms
  by (auto simp: get_deployment_logs_def logs_outer_try_def logs_failed_def
      split: sum.splits prod.splits option.splits)


lemma stub_logs_simps [simp]:
  "list_namespaced_pod stub h ''default'' (Some ''app=web'') = Returns web_pods"
  "list_namespaced_pod stub h ''default'' (Some ''app=checkout'') = Returns []"
  "read_namespaced_pod_log stub h name ns s tail =
     (if name = ''web-b'' then Raises (ApiException 400 ''(400) Reason: Bad Request'')
      else Returns (''started '' @ name))"
  "read_namespaced_deployment stub h [] ''default'' = Raises not_found_404"
  by (simp_all add: stub_def)

lemma label_selector_simps [simp]:
  "label_selector_of [(''app'', ''web'')] = ''app=web''"
  "label_selector_of [(''app'', ''checkout'')] = ''app=checkout''"
  by (simp_all add: label_selector_of_def)

lemma str_nat_small: "n < 10 \<Longrightarrow> str_nat n = [digit_char n]"
  by (subst str_nat.simps) simp

lemma str_nat_3 [simp]: "str_nat (Suc (Suc (Suc 0))) = ''3''"
proof -
  have "Suc (Suc (Suc 0)) = 3" by simp
  then show ?thesis
    by (simp only: str_nat_small digit_char_def) simp
qed

section \<open>Arguments are not validated\<close>

text \<open>
  C3, as stated, fails: \<open>get_deployment_logs\<close> with \<open>hours = -1\<close> calls the cluster five
  times, asks each pod for its log since \<open>-3600\<close> seconds, and returns success.
\<close>

theorem logs_negative_hours_counterexample:
  "fst (get_deployment_logs stub ''web'' ''default'' (- 1) None w0) =
     Inr \<lparr>success = True,
          message = ''Retrieved logs for 3 pods in deployment '' @ q @ ''web'' @ q,
          deployment_name = ''web'', namespace = ''default'',
          logs = [(''web-a'', ''started web-a''),
                  (''web-b'', ''Error retrieving logs: (400) Reason: Bad Request''),
                  (''web-c'', ''started web-c'')]\<rparr> \<and>
   calls (snd (get_deployment_logs stub ''web'' ''default'' (- 1) None w0)) =
     [ReadNamespacedDeployment ''web'' ''default'',
      ListNamespacedPod ''default'' (Some ''app=web''),
      ReadNamespacedPodLog ''web-a'' ''default'' (- 3600) None,
      ReadNamespacedPodLog ''web-b'' ''default'' (- 3600) None,
      ReadNamespacedPodLog ''web-c'' ''default'' (- 3600) None]"
  by (simp add: get_deployment_logs_def logs_outer_try_def logs_try_def Let_def issue_def
      web_def web_pods_def w0_def logs_retrieved_def)

text \<open>
  C3, amended. Neither handler looks at its arguments before it calls the cluster. Whatever
  the name, the hours and the tail line count are, the first thing a call does once the
  kubeconfig file is there and loads is \<open>read_namespaced_deployment\<close> with the name and
  namespace as given; and a call issues nothing exactly when the kubeconfig file is missing
  or does not load.
\<close>

theorem no_argument_validation:
  "(kubeconfig_is_file e \<and> load_kube_config e = None) =
     (\<exists>rest. calls (snd (get_deployment_logs e name ns hours tail w)) =
        calls w @ ReadNamespacedDeployment name ns # rest) \<and>
   (kubeconfig_is_file e \<and> load_kube_config e = None) =
     (\<exists>rest. calls (snd (rollout_restart_deployment e name ns w)) =
        calls w @ ReadNamespacedDeployment name ns # rest)"
proof (cases "kubeconfig_is_file e \<and> load_kube_config e = None")
  case True
  then show ?thesis
    using logs_calls_start [of e name ns hours tail w]
    by (simp add: restart_calls)
next
  case False
  then show ?thesis
    using logs_calls_none [of e name ns hours tail w]
    by (auto simp: restart_calls)
qed

theorem no_argument_validation_witness:
  "calls (snd (get_deployment_logs stub [] ''default'' (- 1) (Some (- 5)) w0)) =
     [ReadNamespacedDeployment [] ''default''] \<and>
   calls (snd (rollout_restart_deployment stub [] ''default'' w0)) =
     [ReadNamespacedDeployment [] ''default'']"
  using no_argument_validation [of stub "[]" "''default''" "- 1" "Some (- 5)" w0]
  by (simp add: get_deployment_logs_def logs_outer_try_def logs_try_def Let_def issue_def
      w0_def not_found_404_def restart_calls)

section \<open>Logs: no pods is a failure\<close>

text \<open>
  C5. When the deployment exists and the pod list for its selector is empty, the call
  returns \<open>success = False\<close> with the message that no pods were found and an empty
  \<open>logs\<close> dictionary.
\<close>

theorem logs_no_pods_is_failure:
  assumes "kubeconfig_is_file e" and "load_kube_config e = None"
    and "read_namespaced_deployment e (calls w) name ns = Returns d"
    and "spec d = Some sp" and "match_labels sp = Some selector"
    and "list_namespaced_pod e (calls w @ [ReadNamespacedDeployment name ns]) ns
           (Some (label_selector_of selector)) = Returns []"
  shows "fst (get_deployment_logs e name ns hours tail w) =
           Inr \<lparr>success = False, message = no_pods_found name ns,
                deployment_name = name, namespace = ns, logs = []\<rparr>"
  using assms
  by (simp add: get_deployment_logs_def logs_outer_try_def logs_try_def Let_def issue_def
      logs_failed_def)

theorem logs_no_pods_is_failure_witness:
  "fst (get_deployment_logs stub ''checkout'' ''default'' 1 None w0) =
     Inr \<lparr>success = False, message = no_pods_found ''checkout'' ''default'',
          deployment_name = ''checkout'', namespace = ''default'', logs = []\<rparr>"
proof -
  have r: "read_namespaced_deployment stub (calls w0) ''checkout'' ''default'' = Returns checkout"
    by simp
  have sp: "spec checkout = Some (the (spec checkout))"
    by (simp add: checkout_def)
  have ml: "match_labels (the (spec checkout)) = Some [(''app'', ''checkout'')]"
    by (simp add: checkout_def)
  have l: "list_namespaced_pod stub (calls w0 @ [ReadNamespacedDeployment ''checkout'' ''default''])
             ''default'' (Some (label_selector_of [(''app'', ''checkout'')])) = Returns []"
    by simp
  show ?thesis
    using logs_no_pods_is_failure [OF stub_simps(1) stub_simps(2) r sp ml l] by simp
qed


section \<open>Logs: which pod failures fail the fetch\<close>

lemma calls_issue [simp]: "calls (issue c w) = calls w @ [c]"
  by (simp add: issue_def)








section \<open>No exception leaves a handler\<close>




lemma restart_handlers_envelope:
  "deployment_name (restart_handlers name ns x) = name \<and>
   namespace (restart_handlers name ns x) = ns \<and>
   \<not> success (restart_handlers name ns x) \<and>
   (message (restart_handlers name ns x) = deployment_not_found name ns \<or>
    (\<exists>t. message (restart_handlers name ns x) = ''API Error: '' @ t) \<or>
    (\<exists>t. message (restart_handlers name ns x) = ''Error: '' @ t))"
  by (cases x) (auto simp: restart_handlers_def restart_failed_def)



section \<open>The list tools: an error looks like an empty namespace\<close>

lemma list_except_api_empty: "fst (list_except_api ns x w) = Inr [] \<or> (\<exists>t. list_except_api ns x w = (Inl (OtherException t), w))"
  by (cases x) auto

lemma list_pods_result:
  "fst (list_pods_in_namespace e ns w) =
     Inr (if kubeconfig_is_file e \<and> load_kube_config e = None
          then (case list_namespaced_pod e (calls w) ns None of
                  Returns items \<Rightarrow> map pod_info_of items
                | Raises x \<Rightarrow> [])
          else [])"
proof -
  have "fst (case list_except_api ns x w' of
               (Inl x, w') \<Rightarrow> (Inr [], print (''Error: '' @ str_exn x) w')
             | (Inr r, w') \<Rightarrow> (Inr r, w')) = (Inr [] :: exn + pod_info list)" for x w'
    by (cases x) auto
  then show ?thesis
    by (auto simp: list_pods_in_namespace_def list_pods_outer_try_def Let_def
        split: option.splits outcome.splits)
qed

lemma list_deployments_result:
  "fst (list_deployments_in_namespace e ns w) =
     Inr (if kubeconfig_is_file e \<and> load_kube_config e = None
          then (case list_namespaced_deployment e (calls w) ns of
                  Returns items \<Rightarrow> map deployment_info_of items
                | Raises x \<Rightarrow> [])
          else [])"
proof -
  have "fst (case list_except_api ns x w' of
               (Inl x, w') \<Rightarrow> (Inr [], print (''Error: '' @ str_exn x) w')
             | (Inr r, w') \<Rightarrow> (Inr r, w')) = (Inr [] :: exn + deployment_info list)" for x w'
    by (cases x) auto
  then show ?thesis
    by (auto simp: list_deployments_in_namespace_def list_deployments_outer_try_def Let_def
        split: option.splits outcome.splits)
qed

text \<open>
  C10. \<open>list_pods_in_namespace\<close> and \<open>list_deployments_in_namespace\<close> return \<open>[]\<close>
  when the kubeconfig file is missing, when it does not load, and when the list call
  raises (a 404 for the namespace, another \<open>ApiException\<close>, or any other exception);
  and \<open>[]\<close> is also what they return for a namespace whose list is empty. The causes
  differ only in what is printed.
\<close>

theorem list_errors_return_empty:
  "(\<not> kubeconfig_is_file e \<or> load_kube_config e \<noteq> None \<or>
    (\<exists>x. list_namespaced_pod e (calls w) ns None = Raises x) \<longrightarrow>
      fst (list_pods_in_namespace e ns w) = Inr []) \<and>
   (kubeconfig_is_file e \<and> load_kube_config e = None \<and>
    list_namespaced_pod e (calls w) ns None = Returns [] \<longrightarrow>
      fst (list_pods_in_namespace e ns w) = Inr []) \<and>
   (\<not> kubeconfig_is_file e \<or> load_kube_config e \<noteq> None \<or>
    (\<exists>x. list_namespaced_deployment e (calls w) ns = Raises x) \<longrightarrow>
      fst (list_deployments_in_namespace e ns w) = Inr []) \<and>
   (kubeconfig_is_file e \<and> load_kube_config e = None \<and>
    list_namespaced_deployment e (calls w) ns = Returns [] \<longrightarrow>
      fst (list_deployments_in_namespace e ns w) = Inr [])"
  by (auto simp: list_pods_result list_deployments_result)

theorem list_errors_return_empty_witness:
  "fst (list_pods_in_namespace (stub\<lparr>kubeconfig_is_file := False\<rparr>) ''default'' w0) = Inr [] \<and>
   fst (list_pods_in_namespace
          (stub\<lparr>list_namespaced_pod := (\<lambda>h ns sel. Raises not_found_404)\<rparr>) ''default'' w0) = Inr [] \<and>
   fst (list_pods_in_namespace stub ''staging'' w0) = Inr [] \<and>
   fst (list_deployments_in_namespace
          (stub\<lparr>load_kube_config := Some (OtherException ''Invalid kube-config file'')\<rparr>)
          ''default'' w0) = Inr [] \<and>
   fst (list_deployments_in_namespace
          (stub\<lparr>list_namespaced_deployment := (\<lambda>h ns. Raises unavailable_503)\<rparr>)
          ''default'' w0) = Inr [] \<and>
   fst (list_deployments_in_namespace stub ''staging'' w0) = Inr []"
  using list_errors_return_empty [of "stub\<lparr>kubeconfig_is_file := False\<rparr>" w0 "''default''"]
    list_errors_return_empty
      [of "stub\<lparr>list_namespaced_pod := (\<lambda>h ns sel. Raises not_found_404)\<rparr>" w0 "''default''"]
    list_errors_return_empty [of stub w0 "''staging''"]
    list_errors_return_empty
      [of "stub\<lparr>load_kube_config := Some (OtherException ''Invalid kube-config file'')\<rparr>"
          w0 "''default''"]
    list_errors_return_empty
      [of "stub\<lparr>list_namespaced_deployment := (\<lambda>h ns. Raises unavailable_503)\<rparr>"
          w0 "''default''"]
  by (simp add: stub_def)

section \<open>The healthy flag\<close>

text \<open>
  C9, as stated, fails: \<open>checkout\<close> is scaled to zero and its status omits the ready and
  available counts. Its snapshot reports \<open>ready_replicas = 0\<close>, \<open>total_replicas = 0\<close>
  and \<open>available_replicas = 0\<close>, and \<open>is_healthy = False\<close>.
\<close>

theorem healthy_absent_count_counterexample:
  "fst (list_deployments_in_namespace stub ''default'' w0) =
     Inr [\<lparr>info_name = ''checkout'', ready_replicas = 0, total_replicas = Some 0,
           available_replicas = 0, up_to_date_replicas = 0, image = [''shop/checkout:1.4''],
           is_healthy = False\<rparr>,
          \<lparr>info_name = ''web'', ready_replicas = 3, total_replicas = Some 3,
           available_replicas = 3, up_to_date_replicas = 3, image = [''shop/web:2.0''],
           is_healthy = True\<rparr>] \<and>
   is_healthy (deployment_info_of checkout) \<noteq>
     (Some (ready_replicas (deployment_info_of checkout)) =
        total_replicas (deployment_info_of checkout) \<and>
      Some (available_replicas (deployment_info_of checkout)) =
        total_replicas (deployment_info_of checkout))"
  by (simp add: list_deployments_result stub_def deployment_info_of_def checkout_def web_def
      images_of_def or_0_def w0_def)

text \<open>
  C9, amended. For every snapshot of the list, \<open>is_healthy\<close> holds exactly when the
  reported ready and available counts both equal the desired count and, where the
  deployment has a status, that status carries both counts. (Without a status the counts
  default to 0 and the comparison alone decides.)
\<close>

theorem healthy_needs_counts_present:
  assumes "kubeconfig_is_file e" and "load_kube_config e = None"
    and "list_namespaced_deployment e (calls w) ns = Returns ds"
  shows "fst (list_deployments_in_namespace e ns w) = Inr (map deployment_info_of ds) \<and>
         (\<forall>d \<in> set ds.
            is_healthy (deployment_info_of d) =
              (Some (ready_replicas (deployment_info_of d)) = total_replicas (deployment_info_of d) \<and>
               Some (available_replicas (deployment_info_of d)) =
                 total_replicas (deployment_info_of d) \<and>
               (case status d of
                  None \<Rightarrow> True
                | Some st \<Rightarrow>
                    status_ready_replicas st \<noteq> None \<and> status_available_replicas st \<noteq> None)))"
  using assms
  by (auto simp: list_deployments_result deployment_info_of_def or_0_def Let_def
      split: option.splits)

theorem healthy_needs_counts_present_witness:
  "fst (list_deployments_in_namespace stub ''default'' w0) =
     Inr [deployment_info_of checkout, deployment_info_of web] \<and>
   \<not> is_healthy (deployment_info_of checkout) \<and> is_healthy (deployment_info_of web)"
proof -
  have l: "list_namespaced_deployment stub (calls w0) ''default'' = Returns [checkout, web]"
    by (simp add: stub_def)
  have a: "fst (list_deployments_in_namespace stub ''default'' w0) =
      Inr [deployment_info_of checkout, deployment_info_of web]"
    using healthy_needs_counts_present [OF stub_simps(1) stub_simps(2) l] by simp
  have c: "\<not> is_healthy (deployment_info_of checkout)"
    by (simp add: deployment_info_of_def checkout_def Let_def)
  have d: "is_healthy (deployment_info_of web)"
    by (simp add: deployment_info_of_def web_def Let_def)
  show ?thesis using a c d by simp
qed

section \<open>The restart annotation\<close>

lemma all_digits: "list_all is_digit ''0123456789''"
  by (simp add: is_digit_def)

lemma is_digit_nth:
  assumes "i < 10"
  shows "is_digit (''0123456789'' ! i)"
proof -
  have "\<forall>n<length ''0123456789''. is_digit (''0123456789'' ! n)"
    using all_digits by (simp only: list_all_length)
  moreover have "length ''0123456789'' = 10" by simp
  ultimately show ?thesis using assms by presburger
qed

lemma is_digit_digit_char: "is_digit (digit_char d)"
  by (simp add: digit_char_def is_digit_nth)

lemma str_nat_digits: "list_all is_digit (str_nat n)"
proof (induction n rule: str_nat.induct)
  case (1 n)
  then show ?case
    by (subst str_nat.simps) (simp add: is_digit_digit_char)
qed

lemma length_str_nat: "0 < k \<Longrightarrow> n < 10 ^ k \<Longrightarrow> length (str_nat n) \<le> k"
proof (induction n arbitrary: k rule: str_nat.induct)
  case (1 n)
  show ?case
  proof (cases "n < 10")
    case True
    with "1.prems" show ?thesis by (subst str_nat.simps) simp
  next
    case False
    with "1.prems" obtain j where k: "k = Suc j" by (cases k) auto
    with False "1.prems" have "0 < j"
      by (cases j) auto
    moreover from k "1.prems" have "n div 10 < 10 ^ j"
      by (simp add: less_mult_imp_div_less mult.commute)
    ultimately have "length (str_nat (n div 10)) \<le> j"
      using "1.IH" [OF False] by blast
    with False k show ?thesis by (subst str_nat.simps) simp
  qed
qed

lemma is_digit_0: "is_digit (CHR ''0'')"
  by (simp add: is_digit_def)

lemma zfill_digits: "list_all is_digit s \<Longrightarrow> list_all is_digit (zfill k s)"
  by (auto simp: zfill_def list_all_iff is_digit_0)

lemma length_zfill: "length s \<le> k \<Longrightarrow> length (zfill k s) = k"
  by (simp add: zfill_def)

lemma not_digit_Z: "\<not> is_digit (CHR ''Z'')"
  by (simp add: is_digit_def)

lemma digit_val_nth:
  assumes "i < 10"
  shows "digit_val (''0123456789'' ! i) = i"
proof -
  have "i = 0 \<or> i = 1 \<or> i = 2 \<or> i = 3 \<or> i = 4 \<or> i = 5 \<or> i = 6 \<or> i = 7 \<or> i = 8 \<or> i = 9"
    using assms by arith
  then show ?thesis
    by (elim disjE) (simp_all add: digit_val_def)
qed

lemma digit_val_digit_char: "digit_val (digit_char d) = d mod 10"
  by (simp add: digit_char_def digit_val_nth)

lemma nat_of_digits_snoc: "nat_of_digits (s @ [c]) = 10 * nat_of_digits s + digit_val c"
  by (simp add: nat_of_digits_def)

lemma nat_of_digits_str_nat: "nat_of_digits (str_nat n) = n"
proof (induction n rule: str_nat.induct)
  case (1 n)
  show ?case
  proof (cases "n < 10")
    case True
    then show ?thesis
      by (subst str_nat.simps) (simp add: nat_of_digits_def digit_val_digit_char)
  next
    case False
    with "1.IH" show ?thesis
      by (subst str_nat.simps) (simp add: nat_of_digits_snoc digit_val_digit_char)
  qed
qed

lemma nat_of_digits_zeros:
  "nat_of_digits (replicate k (CHR ''0'') @ s) = nat_of_digits s"
proof -
  have "foldl (\<lambda>n c. 10 * n + digit_val c) 0 (replicate k (CHR ''0'')) = 0"
    by (induction k) (simp_all add: digit_val_def)
  then show ?thesis by (simp add: nat_of_digits_def)
qed

lemma number_append:
  "length a = k \<Longrightarrow> list_all is_digit a \<Longrightarrow> number k (a @ r) = Some (nat_of_digits a, r)"
  by (simp add: number_def)

lemma field_number:
  "0 < k \<Longrightarrow> n < 10 ^ k \<Longrightarrow> number k (zfill k (str_nat n) @ r) = Some (n, r)"
proof -
  assume k: "0 < k" "n < 10 ^ k"
  have "nat_of_digits (zfill k (str_nat n)) = n"
    by (simp add: zfill_def nat_of_digits_zeros nat_of_digits_str_nat)
  with k show ?thesis
    by (simp add: number_append length_zfill length_str_nat zfill_digits str_nat_digits)
qed

lemma secfrac_z_fraction:
  assumes "0 < us" and "us < 10 ^ 6"
  shows "secfrac_z (''.'' @ zfill 6 (str_nat us) @ ''Z'') = Some us"
proof -
  let ?f = "zfill 6 (str_nat us)"
  have len: "length ?f = 6"
    using assms by (intro length_zfill length_str_nat) simp_all
  have dig: "list_all is_digit ?f"
    by (intro zfill_digits str_nat_digits)
  have tw: "takeWhile is_digit (?f @ ''Z'') = ?f"
    using dig by (simp add: list_all_iff takeWhile_append2 not_digit_Z)
  have dw: "dropWhile is_digit (?f @ ''Z'') = ''Z''"
    using dig by (simp add: list_all_iff dropWhile_append2 not_digit_Z)
  have ne: "?f \<noteq> []" using len by auto
  have val: "nat_of_digits ?f = us"
    by (simp add: zfill_def nat_of_digits_zeros nat_of_digits_str_nat)
  have "''.'' @ ?f @ ''Z'' \<noteq> ''Z''" by simp
  then show ?thesis
    using len ne by (simp add: secfrac_z_def tw dw val)
qed

lemma isoformat_parse:
  assumes "valid_datetime dt"
  shows "parse_rfc3339 (isoformat dt @ ''Z'') = Some dt"
proof -
  have f4: "number 4 (zfill 4 (str_nat (year dt)) @ r) = Some (year dt, r)" for r
    using assms by (intro field_number) (simp_all add: valid_datetime_def)
  have f2: "n < 100 \<Longrightarrow> number 2 (zfill 2 (str_nat n) @ r) = Some (n, r)" for n r
    by (intro field_number) simp_all
  have dm: "days_in_month (year dt) (month dt) \<le> 31"
    by (simp add: days_in_month_def)
  have m: "month dt < 100" "day dt < 100" "hour dt < 100" "minute dt < 100" "second dt < 100"
    using assms dm by (simp_all add: valid_datetime_def)
  let ?rest = "(if microsecond dt = 0 then [] else ''.'' @ zfill 6 (str_nat (microsecond dt))) @ ''Z''"
  have sc: "scan date_time_items (isoformat dt @ ''Z'') =
      Some ([year dt, month dt, day dt, hour dt, minute dt, second dt], ?rest)"
    by (simp add: date_time_items_def isoformat_def f4 f2 m)
  have fr: "secfrac_z ?rest = Some (microsecond dt)"
  proof (cases "microsecond dt = 0")
    case True
    then show ?thesis by (simp add: secfrac_z_def)
  next
    case False
    then have "secfrac_z (''.'' @ zfill 6 (str_nat (microsecond dt)) @ ''Z'') = Some (microsecond dt)"
      using assms by (intro secfrac_z_fraction) (simp_all add: valid_datetime_def)
    with False show ?thesis by simp
  qed
  have rg: "in_range [year dt, month dt, day dt, hour dt, minute dt, second dt]"
    using assms by (simp add: in_range_def valid_datetime_def)
  show ?thesis
    by (simp add: parse_rfc3339_def sc fr rg)
qed


text \<open>The format is more than digits and separators: these are no dates.\<close>

lemma is_digit_0_9: "is_digit (CHR ''0'')" "is_digit (CHR ''9'')"
  by (simp_all add: is_digit_def)

lemma number_literals:
  "number 2 (CHR ''9'' # CHR ''9'' # r) = Some (99, r)"
  "number 4 (CHR ''9'' # CHR ''9'' # CHR ''9'' # CHR ''9'' # r) = Some (9999, r)"
  "number 2 (CHR ''0'' # CHR ''0'' # r) = Some (0, r)"
  "number 4 (CHR ''0'' # CHR ''0'' # CHR ''0'' # CHR ''0'' # r) = Some (0, r)"
  by (simp_all add: number_def nat_of_digits_def digit_val_def is_digit_0_9)

lemma rfc3339_utc_rejects:
  "\<not> rfc3339_utc ''0000-00-00T00:00:00Z''"
  "\<not> rfc3339_utc ''9999-99-99T99:99:99Z''"
proof -
  have a: "scan date_time_items ''0000-00-00T00:00:00Z'' = Some ([0, 0, 0, 0, 0, 0], ''Z'')"
    by (simp add: date_time_items_def number_literals)
  have b: "scan date_time_items ''9999-99-99T99:99:99Z'' =
      Some ([9999, 99, 99, 99, 99, 99], ''Z'')"
    by (simp add: date_time_items_def number_literals)
  show "\<not> rfc3339_utc ''0000-00-00T00:00:00Z''"
    by (simp add: rfc3339_utc_def parse_rfc3339_def a in_range_def secfrac_z_def)
  show "\<not> rfc3339_utc ''9999-99-99T99:99:99Z''"
    by (simp add: rfc3339_utc_def parse_rfc3339_def b in_range_def secfrac_z_def)
qed

lemma json_get_patch_body: "json_get (patch_body ts) restartedAt_path = Some (JString ts)"
  by (simp add: patch_body_def restartedAt_path_def)

text \<open>
  C8. Every restart call that returns success has issued exactly one patch, after the
  read, whose body carries under \<open>spec.template.metadata.annotations\<close>, at the key
  \<open>kubectl.kubernetes.io/restartedAt\<close>, the string \<open>utcnow().isoformat() + "Z"\<close>. For
  every value a \<open>datetime\<close> can hold, that string is an RFC 3339 date-time in UTC, and
  read back it gives the year, month, day, hour, minute, second and microsecond of the
  clock at the time of the call.
\<close>

theorem restart_annotation_rfc3339:
  assumes "fst (rollout_restart_deployment e name ns w) = Inr r" and "success r"
    and "\<forall>h. valid_datetime (utcnow e h)"
  shows "\<exists>ts body.
           calls (snd (rollout_restart_deployment e name ns w)) =
             calls w @ [ReadNamespacedDeployment name ns, PatchNamespacedDeployment name ns body] \<and>
           json_get body restartedAt_path = Some (JString ts) \<and>
           ts = isoformat (utcnow e (calls w @ [ReadNamespacedDeployment name ns])) @ ''Z'' \<and>
           rfc3339_utc ts \<and>
           parse_rfc3339 ts = Some (utcnow e (calls w @ [ReadNamespacedDeployment name ns]))"
proof -
  let ?now = "utcnow e (calls w @ [ReadNamespacedDeployment name ns])"
  let ?ts = "isoformat ?now @ ''Z''"
  have ok: "kubeconfig_is_file e \<and> load_kube_config e = None \<and>
      (\<exists>d. read_namespaced_deployment e (calls w) name ns = Returns d)"
    using assms(1,2) restart_handlers_envelope [of name ns]
    by (auto simp: restart_result restart_failed_def split: option.splits outcome.splits if_splits)
  then have "calls (snd (rollout_restart_deployment e name ns w)) =
      calls w @ [ReadNamespacedDeployment name ns,
                 PatchNamespacedDeployment name ns (patch_body ?ts)]"
    by (auto simp: restart_calls)
  moreover have p: "parse_rfc3339 ?ts = Some ?now"
    using assms(3) by (intro isoformat_parse) simp
  moreover from p have "rfc3339_utc ?ts"
    by (simp add: rfc3339_utc_def)
  ultimately show ?thesis
    using json_get_patch_body [of ?ts] by blast
qed

theorem restart_annotation_rfc3339_witness:
  "calls (snd (rollout_restart_deployment stub ''web'' ''default'' w0)) =
     [ReadNamespacedDeployment ''web'' ''default'',
      PatchNamespacedDeployment ''web'' ''default''
        (JObject [(''spec'', JObject [(''template'', JObject [(''metadata'',
           JObject [(''annotations'',
             JObject [(''kubectl.kubernetes.io/restartedAt'',
               JString (isoformat (utcnow stub []) @ ''Z''))])])])])])] \<and>
   parse_rfc3339 (isoformat (utcnow stub []) @ ''Z'') =
     Some \<lparr>year = 2024, month = 5, day = 17, hour = 9, minute = 3, second = 7,
           microsecond = 4200\<rparr>"
proof -
  have r: "fst (rollout_restart_deployment stub ''web'' ''default'' w0) =
      Inr (restart_initiated ''web'' ''default'')"
    by (simp add: restart_result)
  have s: "success (restart_initiated ''web'' ''default'')"
    by (simp add: restart_initiated_def)
  have v: "\<forall>h. valid_datetime (utcnow stub h)"
    by (simp add: stub_def valid_datetime_def days_in_month_def)
  have u: "utcnow stub h = \<lparr>year = 2024, month = 5, day = 17, hour = 9, minute = 3, second = 7,
           microsecond = 4200\<rparr>" for h
    by (simp add: stub_def)
  show ?thesis
    using restart_annotation_rfc3339 [OF r s v]
    by (simp add: restart_calls w0_def patch_body_def u)
qed

section \<open>Two concurrent restarts of one deployment\<close>

text \<open>
  A request that takes its two steps without interruption is a call of
  \<open>rollout_restart_deployment\<close>.
\<close>

lemma restart_steps_refine:
  "\<exists>r w'. rollout_restart_deployment e name ns w = (Inr r, w') \<and>
     (case restart_step e name ns Start w of
        (pc, w1) \<Rightarrow> restart_step e name ns pc w1) = (Finished r, w')"
  by (auto simp: rollout_restart_deployment_def restart_outer_try_def restart_try_def
      restart_handlers_def Let_def
      split: option.splits outcome.splits exn.splits sum.splits prod.splits)

lemma run_two_accepting:
  assumes "kubeconfig_is_file e" and "load_kube_config e = None"
    and "\<forall>h. \<exists>d. read_namespaced_deployment e h name ns = Returns d"
    and "\<forall>h body. patch_namespaced_deployment e h name ns body = Returns ()"
  shows "pa \<in> {Start, InFlight, Finished (restart_initiated name ns)} \<Longrightarrow>
         pb \<in> {Start, InFlight, Finished (restart_initiated name ns)} \<Longrightarrow>
         steps_left pa \<le> count_list sched True \<Longrightarrow>
         steps_left pb \<le> count_list sched False \<Longrightarrow>
         \<exists>w'. run_two e name ns sched (pa, pb, w) =
                 (Finished (restart_initiated name ns), Finished (restart_initiated name ns), w') \<and>
              patch_calls (calls w') =
                patch_calls (calls w) + (if steps_left pa = 0 then 0 else 1) +
                (if steps_left pb = 0 then 0 else 1)"
proof (induction sched arbitrary: pa pb w)
  case Nil
  then show ?case by auto
next
  case (Cons b sched)
  have start: "restart_step e name ns Start w = (InFlight, issue (ReadNamespacedDeployment name ns) w)"
    for w
  proof -
    obtain d where "read_namespaced_deployment e (calls w) name ns = Returns d"
      using assms(3) by blast
    then show ?thesis using assms(1,2) by (simp add: Let_def)
  qed
  have inflight: "\<exists>body. restart_step e name ns InFlight w =
      (Finished (restart_initiated name ns), issue (PatchNamespacedDeployment name ns body) w)"
    for w
    using assms(4) by (intro exI [of _ "patch_body (isoformat (utcnow e (calls w)) @ ''Z'')"])
      (simp add: Let_def)
  show ?case
  proof (cases b)
    case True
    from Cons.prems(1) consider "pa = Start" | "pa = InFlight"
      | "pa = Finished (restart_initiated name ns)" by auto
    then show ?thesis
    proof cases
      case 1
      with True Cons.prems
        Cons.IH [of InFlight pb "issue (ReadNamespacedDeployment name ns) w"]
      show ?thesis by (auto simp: start simp del: restart_step.simps)
    next
      case 2
      obtain body where s: "restart_step e name ns InFlight w =
          (Finished (restart_initiated name ns), issue (PatchNamespacedDeployment name ns body) w)"
        using inflight by blast
      with 2 True Cons.prems
        Cons.IH [of "Finished (restart_initiated name ns)" pb
          "issue (PatchNamespacedDeployment name ns body) w"]
      show ?thesis by (auto simp del: restart_step.simps)
    next
      case 3
      with True Cons.prems Cons.IH [of pa pb w]
      show ?thesis by auto
    qed
  next
    case False
    from Cons.prems(2) consider "pb = Start" | "pb = InFlight"
      | "pb = Finished (restart_initiated name ns)" by auto
    then show ?thesis
    proof cases
      case 1
      with False Cons.prems
        Cons.IH [of pa InFlight "issue (ReadNamespacedDeployment name ns) w"]
      show ?thesis by (auto simp: start simp del: restart_step.simps)
    next
      case 2
      obtain body where s: "restart_step e name ns InFlight w =
          (Finished (restart_initiated name ns), issue (PatchNamespacedDeployment name ns body) w)"
        using inflight by blast
      with 2 False Cons.prems
        Cons.IH [of pa "Finished (restart_initiated name ns)"
          "issue (PatchNamespacedDeployment name ns body) w"]
      show ?thesis by (auto simp del: restart_step.simps)
    next
      case 3
      with False Cons.prems Cons.IH [of pa pb w]
      show ?thesis by auto
    qed
  qed
qed

text \<open>
  C1, as stated, fails. The first request reads \<open>web\<close> and is in flight; the second
  request then runs to its end, and the first one finishes. Both have patched: two patch
  calls, and the second request got the success envelope, not a conflict.
\<close>

theorem concurrent_restart_counterexample:
  "fst (run_two stub ''web'' ''default'' [True] (Start, Start, w0)) = InFlight \<and>
   fst (run_two stub ''web'' ''default'' [True, False, False, True] (Start, Start, w0)) =
     Finished (restart_initiated ''web'' ''default'') \<and>
   fst (snd (run_two stub ''web'' ''default'' [True, False, False, True] (Start, Start, w0))) =
     Finished (restart_initiated ''web'' ''default'') \<and>
   success (restart_initiated ''web'' ''default'') \<and>
   patch_calls (calls (snd (snd
     (run_two stub ''web'' ''default'' [True, False, False, True] (Start, Start, w0))))) = 2"
  by (simp add: Let_def w0_def restart_initiated_def)

text \<open>
  C1, amended. On a cluster that accepts the read and the patch of the deployment, under
  every schedule that lets both requests take their two steps, each request issues its own
  patch and returns the success envelope: two patch calls, and no request is turned away.
\<close>

theorem concurrent_restarts_both_patch:
  assumes "kubeconfig_is_file e" and "load_kube_config e = None"
    and "\<forall>h. \<exists>d. read_namespaced_deployment e h name ns = Returns d"
    and "\<forall>h body. patch_namespaced_deployment e h name ns body = Returns ()"
    and "2 \<le> count_list sched True" and "2 \<le> count_list sched False"
  shows "\<exists>w'. run_two e name ns sched (Start, Start, w) =
                 (Finished (restart_initiated name ns), Finished (restart_initiated name ns), w') \<and>
              success (restart_initiated name ns) \<and>
              patch_calls (calls w') = patch_calls (calls w) + 2"
  using run_two_accepting [OF assms(1-4), of Start Start sched w] assms(5,6)
  by (auto simp: restart_initiated_def)

theorem concurrent_restarts_both_patch_witness:
  "run_two stub ''web'' ''default'' [True, False, True, False] (Start, Start, w0) =
     (Finished (restart_initiated ''web'' ''default''),
      Finished (restart_initiated ''web'' ''default''),
      snd (snd (run_two stub ''web'' ''default'' [True, False, True, False] (Start, Start, w0)))) \<and>
   patch_calls (calls (snd (snd
     (run_two stub ''web'' ''default'' [True, False, True, False] (Start, Start, w0))))) = 2"
proof -
  have r: "\<forall>h. \<exists>d. read_namespaced_deployment stub h ''web'' ''default'' = Returns d" by simp
  have p: "\<forall>h body. patch_namespaced_deployment stub h ''web'' ''default'' body = Returns ()"
    by simp
  have a: "2 \<le> count_list [True, False, True, False] True" by simp
  have b: "2 \<le> count_list [True, False, True, False] False" by simp
  show ?thesis
    using concurrent_restarts_both_patch [OF stub_simps(1) stub_simps(2) r p a b, of w0]
    by (auto simp: w0_def)
qed

end
